theory Spec2Isabelle
  imports Complex_Main
begin

section \<open>Tables, errors and log records\<close>

text \<open>
  A pandas table is modelled column by column: a list of labelled columns, in the
  order of the table's column index, every column the list of its cells from the first
  row to the last. A cell is a number, a string, or the missing value (pandas' NaN and
  Python's None). Numbers are idealised as reals: the rounding of 64-bit floats, and the
  values inf and nan of \<^verbatim>\<open>float\<close>, are not part of the model.
  Row labels (the table's index) are not modelled; rows are known by their position.
\<close>

datatype cell = Num real | Str string | NA

type_synonym frame = "(string \<times> cell list) list"

text \<open>Exceptions are values. \<open>OtherError\<close> stands for any exception of a library
  the code calls (database, network, parser), named by its text.\<close>

datatype error =
    ValueError | KeyError | TypeError | AttributeError | IndexError | StopIteration
  | OtherError string

text \<open>A call of a logger: its level and its message. \<open>LogExc l s e\<close> is a message
  made of the text \<open>s\<close> followed by the rendering of the exception \<open>e\<close>.\<close>

datatype level = DEBUG | INFO | WARNING | ERROR

datatype log_entry = Log level string | LogExc level string error

definition labels :: "frame \<Rightarrow> string list" where
  "labels d = map fst d"

text \<open>\<^verbatim>\<open>df[name]\<close>: the column of that label (\<open>None\<close> where pandas raises KeyError).
  Where a label occurs more than once the model reads the first column of that label;
  tables with repeated labels are outside what the model describes.\<close>

definition get_col :: "frame \<Rightarrow> string \<Rightarrow> cell list option" where
  "get_col d name = map_of d name"

text \<open>\<^verbatim>\<open>df[name] = values\<close>: replaces the column in place, or appends a new last
  column.\<close>

fun set_col :: "frame \<Rightarrow> string \<Rightarrow> cell list \<Rightarrow> frame" where
  "set_col [] name vs = [(name, vs)]"
| "set_col ((n, c) # d) name vs =
     (if n = name then (n, vs) # d else (n, c) # set_col d name vs)"

definition nrows :: "frame \<Rightarrow> nat" where
  "nrows d = (case d of [] \<Rightarrow> 0 | (n, c) # rest \<Rightarrow> length c)"

text \<open>All columns of a table have the same number of cells.\<close>

definition wf_frame :: "frame \<Rightarrow> bool" where
  "wf_frame d = list_all (\<lambda>(n, c). length c = nrows d) d"

text \<open>\<^verbatim>\<open>df.empty\<close>: no column, or no row.\<close>

definition frame_empty :: "frame \<Rightarrow> bool" where
  "frame_empty d = (d = [] \<or> nrows d = 0)"

section \<open>data_ingestion.query_data\<close>

text \<open>
  The argument is what connecting to the engine and running
  \<^verbatim>\<open>pd.read_sql_query\<close> gave: an exception or a table. The function returns its
  outcome and the calls it made to the module's logger.
\<close>

definition query_data :: "error + frame \<Rightarrow> (error + frame) \<times> log_entry list" where
  "query_data read_sql =
     (case read_sql of
        Inl e \<Rightarrow>
          if e = ValueError
          then (Inl e, [LogExc ERROR ''SQL query failed. Error: '' e])
          else (Inl e, [LogExc ERROR ''An error occurred while querying the database. Error: '' e])
      | Inr d \<Rightarrow>
          if frame_empty d
          then (Inl ValueError,
                [Log ERROR ''The query returned an empty DataFrame.'',
                 LogExc ERROR ''SQL query failed. Error: '' ValueError])
          else (Inr d, [Log INFO ''Query executed successfully.'']))"

text \<open>\<^verbatim>\<open>read_from_web_CSV\<close>: the argument is what \<^verbatim>\<open>pd.read_csv\<close> gave.\<close>

definition read_from_web_CSV :: "error + frame \<Rightarrow> (error + frame) \<times> log_entry list" where
  "read_from_web_CSV read_csv =
     (case read_csv of
        Inl e \<Rightarrow>
          if e = OtherError ''EmptyDataError''
          then (Inl e, [Log ERROR
             ''The URL does not point to a valid CSV file. Please check the URL and try again.''])
          else (Inl e, [LogExc ERROR ''Failed to read CSV from the web. Error: '' e])
      | Inr d \<Rightarrow> (Inr d, [Log INFO ''CSV file read successfully from the web.'']))"

section \<open>FieldDataProcessor\<close>

text \<open>
  The fields of the object that the methods below read or write. A dictionary whose
  iteration order matters (\<open>columns_to_rename\<close>) is an association list in insertion
  order; one that is only looked up (\<open>values_to_rename\<close>) is a map. \<open>df\<close> is
  \<open>None\<close> until data has been ingested. \<open>logged\<close> holds the calls made to the
  object's logger, oldest first.
\<close>

record processor =
  logged :: "log_entry list"

record field_state = processor +
  columns_to_rename :: "(string \<times> string) list"
  values_to_rename :: "cell \<rightharpoonup> cell"
  df :: "frame option"

text \<open>The loop of \<open>rename_columns\<close> that extends the temporary name with underscores
  while it is a label of the table.\<close>

function fresh_temp_name :: "string list \<Rightarrow> string \<Rightarrow> string" where
  "fresh_temp_name cols temp_name =
     (if temp_name \<in> set cols then fresh_temp_name cols (temp_name @ ''_'') else temp_name)"
  by pat_completeness auto
termination
proof (relation "measure (\<lambda>(cols, t). Suc (sum_list (map length cols)) - length t)")
  show "wf (measure (\<lambda>(cols, t). Suc (sum_list (map length cols)) - length t))"
    by simp
next
  fix cols :: "string list" and temp_name :: string
  assume "temp_name \<in> set cols"
  then have "length temp_name \<le> sum_list (map length cols)"
    by (induction cols) auto
  then show "((cols, temp_name @ ''_''), (cols, temp_name))
      \<in> measure (\<lambda>(cols, t). Suc (sum_list (map length cols)) - length t)"
    by simp
qed

text \<open>\<^verbatim>\<open>df.rename(columns=mapper)\<close>: every label that is a key of the mapper is
  replaced, every other label is kept; keys that are no label are ignored.\<close>

definition rename :: "frame \<Rightarrow> (string \<rightharpoonup> string) \<Rightarrow> frame" where
  "rename d mapper =
     map (\<lambda>(n, c). (case mapper n of None \<Rightarrow> n | Some n' \<Rightarrow> n', c)) d"

definition rename_columns :: "field_state \<Rightarrow> (error + unit) \<times> field_state" where
  "rename_columns st =
     (case columns_to_rename st of
        [] \<Rightarrow> (Inl IndexError, st)
      | (column1, column2) # others \<Rightarrow>
          (case df st of
             None \<Rightarrow> (Inl AttributeError, st)
           | Some d \<Rightarrow>
               let temp_name = fresh_temp_name (labels d) ''__temp_name_for_swap__'';
                   d1 = rename d [column1 \<mapsto> temp_name, column2 \<mapsto> column1];
                   d2 = rename d1 [temp_name \<mapsto> column2]
               in (Inr (),
                   st\<lparr>df := Some d2,
                      logged := logged st @
                        [Log INFO (''Swapped columns: '' @ column1 @ '' with '' @ column2)]\<rparr>)))"


text \<open>
  What \<^verbatim>\<open>Series.abs\<close> does depends on the dtype that pandas holds for the column,
  which the cells alone do not tell (the number 5 may stand in an int64 or in a float64
  column). The dtype of the column is therefore an argument. A column of integers read
  from a database is int64 and has no missing value; every other numeric column is
  float64, its missing value NaN; a column of anything else is an object column, its
  missing value None (so is a column read from a database with no value at all).
\<close>

datatype dtype = Int64 | Float64 | Object

text \<open>
  \<^verbatim>\<open>abs\<close> of one cell. In an int64 column the negation of \<open>- 2 ^ 63\<close> is no int64
  and wraps around to \<open>- 2 ^ 63\<close>; a number of a float64 column, and a Python number
  of an object column, has its absolute value. NaN stays NaN. In an object column
  \<^verbatim>\<open>abs\<close> is Python's, and raises TypeError for None and for a string. The last
  equation also covers the cells that a column of the dtype cannot hold (a string or a
  missing value in an int64 column, a string in a float64 column).
\<close>

fun cell_abs :: "dtype \<Rightarrow> cell \<Rightarrow> error + cell" where
  "cell_abs Int64 (Num x) = Inr (Num (if x = - (2 ^ 63) then x else \<bar>x\<bar>))"
| "cell_abs Float64 (Num x) = Inr (Num \<bar>x\<bar>)"
| "cell_abs Float64 NA = Inr NA"
| "cell_abs Object (Num x) = Inr (Num \<bar>x\<bar>)"
| "cell_abs dt c = Inl TypeError"

text \<open>\<^verbatim>\<open>Series.abs\<close>: cell by cell, stopping at the first cell that raises.\<close>

fun series_abs :: "dtype \<Rightarrow> cell list \<Rightarrow> error + cell list" where
  "series_abs dt [] = Inr []"
| "series_abs dt (c # cs) =
     (case cell_abs dt c of
        Inl e \<Rightarrow> Inl e
      | Inr c' \<Rightarrow> (case series_abs dt cs of Inl e \<Rightarrow> Inl e | Inr cs' \<Rightarrow> Inr (c' # cs')))"

text \<open>The first argument is the dtype of the column \<open>Elevation\<close> when the method is
  called. The next two are the parameters \<open>column_name\<close> and \<open>abs_column\<close> of the
  method (the caller passes the defaults \<open>''Crop_type''\<close> and \<open>''Elevation''\<close> when it
  gives none). The first assignment has happened when the second statement raises.\<close>

definition apply_corrections ::
  "dtype \<Rightarrow> string \<Rightarrow> string \<Rightarrow> field_state \<Rightarrow> (error + unit) \<times> field_state" where
  "apply_corrections dt column_name abs_column st =
     (case df st of
        None \<Rightarrow> (Inl TypeError, st)
      | Some d \<Rightarrow>
          (case get_col d ''Elevation'' of
             None \<Rightarrow> (Inl KeyError, st)
           | Some elevation \<Rightarrow>
               (case series_abs dt elevation of
                  Inl e \<Rightarrow> (Inl e, st)
                | Inr elevation' \<Rightarrow>
                    let d1 = set_col d ''Elevation'' elevation' in
                    (case get_col d1 ''Crop_type'' of
                       None \<Rightarrow> (Inl KeyError, st\<lparr>df := Some d1\<rparr>)
                     | Some crops \<Rightarrow>
                         let crops' = map (\<lambda>crop. case values_to_rename st crop of
                                                    None \<Rightarrow> crop | Some v \<Rightarrow> v) crops
                         in (Inr (), st\<lparr>df := Some (set_col d1 ''Crop_type'' crops')\<rparr>)))))"

subsection \<open>The left join\<close>

text \<open>
  \<^verbatim>\<open>pd.merge(left, right, on=key, how='left')\<close>. The indexer lists, for every left
  row in order, the right rows whose key cell equals the left row's (missing keys match
  each other, as in pandas), or one entry without a right row when there is none. Every
  column of the result takes its cells through the indexer. A label other than the key
  that both tables have gets the suffix \<open>_x\<close> on the left and \<open>_y\<close> on the right.
  The refusal of pandas to join key columns of different dtypes is not modelled.
\<close>

definition left_indexer :: "cell list \<Rightarrow> cell list \<Rightarrow> (nat \<times> nat option) list" where
  "left_indexer lk rk =
     concat (map (\<lambda>i. case filter (\<lambda>j. rk ! j = lk ! i) [0..<length rk] of
                          [] \<Rightarrow> [(i, None)]
                        | j # js \<Rightarrow> map (\<lambda>j'. (i, Some j')) (j # js))
                 [0..<length lk])"

definition take_left :: "(nat \<times> nat option) list \<Rightarrow> cell list \<Rightarrow> cell list" where
  "take_left ix c = map (\<lambda>(i, j). c ! i) ix"

definition take_right :: "(nat \<times> nat option) list \<Rightarrow> cell list \<Rightarrow> cell list" where
  "take_right ix c = map (\<lambda>(i, j). case j of None \<Rightarrow> NA | Some j' \<Rightarrow> c ! j') ix"

definition suffixed :: "frame \<Rightarrow> frame \<Rightarrow> string \<Rightarrow> string \<Rightarrow> string \<Rightarrow> string" where
  "suffixed l r on suffix n =
     (if n \<noteq> on \<and> n \<in> set (labels l) \<and> n \<in> set (labels r) then n @ suffix else n)"

definition merge_left :: "frame \<Rightarrow> frame \<Rightarrow> string \<Rightarrow> error + frame" where
  "merge_left l r on =
     (case get_col l on of
        None \<Rightarrow> Inl KeyError
      | Some lk \<Rightarrow>
          (case get_col r on of
             None \<Rightarrow> Inl KeyError
           | Some rk \<Rightarrow>
               let ix = left_indexer lk rk in
               Inr (map (\<lambda>(n, c). (suffixed l r on ''_x'' n, take_left ix c)) l @
                    map (\<lambda>(n, c). (suffixed l r on ''_y'' n, take_right ix c))
                        (filter (\<lambda>(n, c). n \<noteq> on) r))))"

text \<open>\<^verbatim>\<open>df.drop(columns=name)\<close>: KeyError when no column has the label.\<close>

definition drop_columns :: "frame \<Rightarrow> string \<Rightarrow> error + frame" where
  "drop_columns d name =
     (if name \<in> set (labels d) then Inr (filter (\<lambda>(n, c). n \<noteq> name) d) else Inl KeyError)"

text \<open>The first argument is what \<^verbatim>\<open>pd.read_csv\<close> gave for the metadata file. The
  file is read before the merge looks at \<open>df\<close>; the merged table is stored before the
  artifact column is dropped.\<close>

definition weather_station_mapping ::
  "error + frame \<Rightarrow> field_state \<Rightarrow> (error + frame) \<times> field_state" where
  "weather_station_mapping read_csv st =
     (case fst (read_from_web_CSV read_csv) of
        Inl e \<Rightarrow> (Inl e, st)
      | Inr meta \<Rightarrow>
          (case df st of
             None \<Rightarrow> (Inl TypeError, st)
           | Some d \<Rightarrow>
               (case merge_left d meta ''Field_ID'' of
                  Inl e \<Rightarrow> (Inl e, st)
                | Inr merged \<Rightarrow>
                    (case drop_columns merged ''Unnamed: 0'' of
                       Inl e \<Rightarrow> (Inl e, st\<lparr>df := Some merged\<rparr>)
                     | Inr d' \<Rightarrow> (Inr d', st\<lparr>df := Some d'\<rparr>)))))"

section \<open>WeatherDataProcessor\<close>

text \<open>
  A regular expression is modelled by what \<^verbatim>\<open>re.search\<close> computes for it: from a
  message to \<open>None\<close> when nothing matches, or to the groups of the leftmost match, a
  group that took no part in the match being \<open>None\<close>. The conversion \<^verbatim>\<open>float\<close> is
  an argument of the functions that call it: from the text of a group to ValueError or
  to the number.
\<close>

type_synonym pattern = "string \<Rightarrow> string option list option"

record weather_state = processor +
  patterns :: "(string \<times> pattern) list"
  weather_df :: "frame option"

text \<open>The fetch stage; the argument is what \<^verbatim>\<open>pd.read_csv\<close> gave.\<close>

definition weather_station_mapping_load ::
  "error + frame \<Rightarrow> weather_state \<Rightarrow> (error + unit) \<times> weather_state" where
  "weather_station_mapping_load read_csv st =
     (case fst (read_from_web_CSV read_csv) of
        Inl e \<Rightarrow> (Inl e, st)
      | Inr d \<Rightarrow>
          (Inr (), st\<lparr>weather_df := Some d,
                      logged := logged st @
                        [Log INFO ''Successfully loaded weather station data from the web.'']\<rparr>))"

text \<open>\<^verbatim>\<open>next(x for x in groups if x is not None)\<close>; \<open>None\<close> is StopIteration.\<close>

fun first_not_none :: "'a option list \<Rightarrow> 'a option" where
  "first_not_none [] = None"
| "first_not_none (None # xs) = first_not_none xs"
| "first_not_none (Some x # xs) = Some x"

text \<open>The message is a cell of the table: \<^verbatim>\<open>re.search\<close> raises TypeError for one
  that is no string. The result is paired with the calls to the logger.\<close>

fun extract_measurement ::
  "(string \<Rightarrow> error + real) \<Rightarrow> (string \<times> pattern) list \<Rightarrow> cell \<Rightarrow>
   (error + string option \<times> real option) \<times> log_entry list" where
  "extract_measurement float [] message =
     (Inr (None, None), [Log DEBUG ''No measurement match found.''])"
| "extract_measurement float ((key, pattern) # rest) message =
     (case message of
        Str m \<Rightarrow>
          (case pattern m of
             None \<Rightarrow> extract_measurement float rest message
           | Some groups \<Rightarrow>
               (case first_not_none groups of
                  None \<Rightarrow> (Inl StopIteration, [Log DEBUG (''Measurement extracted: '' @ key)])
                | Some x \<Rightarrow>
                    (case float x of
                       Inl e \<Rightarrow> (Inl e, [Log DEBUG (''Measurement extracted: '' @ key)])
                     | Inr v \<Rightarrow> (Inr (Some key, Some v),
                                 [Log DEBUG (''Measurement extracted: '' @ key)]))))
      | _ \<Rightarrow> (Inl TypeError, []))"

text \<open>\<^verbatim>\<open>Series.apply(self.extract_measurement)\<close>: stops at the first message whose
  extraction raises.\<close>

fun apply_extract ::
  "(string \<Rightarrow> error + real) \<Rightarrow> (string \<times> pattern) list \<Rightarrow> cell list \<Rightarrow>
   (error + (string option \<times> real option) list) \<times> log_entry list" where
  "apply_extract float ps [] = (Inr [], [])"
| "apply_extract float ps (m # ms) =
     (case extract_measurement float ps m of
        (Inl e, l) \<Rightarrow> (Inl e, l)
      | (Inr r, l) \<Rightarrow>
          (case apply_extract float ps ms of
             (Inl e, l') \<Rightarrow> (Inl e, l @ l')
           | (Inr rs, l') \<Rightarrow> (Inr (r # rs), l @ l')))"

definition kind_cell :: "string option \<Rightarrow> cell" where
  "kind_cell k = (case k of None \<Rightarrow> NA | Some s \<Rightarrow> Str s)"

definition value_cell :: "real option \<Rightarrow> cell" where
  "value_cell v = (case v of None \<Rightarrow> NA | Some x \<Rightarrow> Num x)"

text \<open>With no row, \<^verbatim>\<open>zip(*result)\<close> is empty and unpacking it into two targets
  raises ValueError.\<close>

definition process_messages ::
  "(string \<Rightarrow> error + real) \<Rightarrow> weather_state \<Rightarrow> (error + frame option) \<times> weather_state" where
  "process_messages float st =
     (case weather_df st of
        None \<Rightarrow>
          (Inr None,
           st\<lparr>logged := logged st @
             [Log WARNING ''weather_df is not initialized, skipping message processing.'']\<rparr>)
      | Some d \<Rightarrow>
          (case get_col d ''Message'' of
             None \<Rightarrow> (Inl KeyError, st)
           | Some messages \<Rightarrow>
               (case apply_extract float (patterns st) messages of
                  (Inl e, l) \<Rightarrow> (Inl e, st\<lparr>logged := logged st @ l\<rparr>)
                | (Inr result, l) \<Rightarrow>
                    if result = [] then (Inl ValueError, st\<lparr>logged := logged st @ l\<rparr>)
                    else
                      let d' = set_col (set_col d ''Measurement'' (map (kind_cell \<circ> fst) result))
                                 ''Value'' (map (value_cell \<circ> snd) result)
                      in (Inr (Some d'),
                          st\<lparr>weather_df := Some d',
                             logged := logged st @ l @
                               [Log INFO ''Messages processed and measurements extracted.'']\<rparr>))))"

subsection \<open>Grouped means\<close>

text \<open>
  \<^verbatim>\<open>groupby(by=[station, kind])['Value'].mean()\<close>: rows with a missing key are left
  out; the mean of a group skips missing values and is missing when no value is left;
  a string among the values of the grouped rows is a TypeError. pandas sorts the group
  keys; the model keeps the keys as a set and the order out.
\<close>

definition grouped_rows :: "cell list \<Rightarrow> cell list \<Rightarrow> cell list \<Rightarrow> (cell \<times> cell \<times> cell) list" where
  "grouped_rows ids ms vs = filter (\<lambda>(s, k, v). s \<noteq> NA \<and> k \<noteq> NA) (zip ids (zip ms vs))"

definition group_values :: "(cell \<times> cell \<times> cell) list \<Rightarrow> cell \<Rightarrow> cell \<Rightarrow> real list" where
  "group_values rows s k =
     concat (map (\<lambda>(s', k', v). case v of Num x \<Rightarrow> if s' = s \<and> k' = k then [x] else []
                                         | _ \<Rightarrow> []) rows)"

definition mean :: "real list \<Rightarrow> real option" where
  "mean xs = (if xs = [] then None else Some (sum_list xs / real (length xs)))"

record grouped_means =
  group_keys :: "(cell \<times> cell) set"
  group_mean :: "cell \<times> cell \<Rightarrow> real option"

definition groupby_mean :: "(cell \<times> cell \<times> cell) list \<Rightarrow> error + grouped_means" where
  "groupby_mean rows =
     (if list_ex (\<lambda>(s, k, v). case v of Str x \<Rightarrow> True | _ \<Rightarrow> False) rows then Inl TypeError
      else Inr \<lparr>group_keys = set (map (\<lambda>(s, k, v). (s, k)) rows),
                group_mean = (\<lambda>(s, k). mean (group_values rows s k))\<rparr>)"

text \<open>\<^verbatim>\<open>unstack()\<close>: the first key labels the rows, the second the columns; a cell
  whose pair is no group is missing.\<close>

record mean_table =
  stations :: "cell set"
  kinds :: "cell set"
  mean_at :: "cell \<Rightarrow> cell \<Rightarrow> real option"

definition unstack :: "grouped_means \<Rightarrow> mean_table" where
  "unstack g =
     \<lparr>stations = fst ` group_keys g,
      kinds = snd ` group_keys g,
      mean_at = (\<lambda>s k. if (s, k) \<in> group_keys g then group_mean g (s, k) else None)\<rparr>"

definition calculate_means :: "weather_state \<Rightarrow> (error + mean_table option) \<times> weather_state" where
  "calculate_means st =
     (case weather_df st of
        None \<Rightarrow>
          (Inr None,
           st\<lparr>logged := logged st @
             [Log WARNING ''weather_df is not initialized, cannot calculate means.'']\<rparr>)
      | Some d \<Rightarrow>
          (case get_col d ''Weather_station_ID'' of
             None \<Rightarrow> (Inl KeyError, st)
           | Some ids \<Rightarrow>
               (case get_col d ''Measurement'' of
                  None \<Rightarrow> (Inl KeyError, st)
                | Some ms \<Rightarrow>
                    (case get_col d ''Value'' of
                       None \<Rightarrow> (Inl KeyError, st)
                     | Some vs \<Rightarrow>
                         (case groupby_mean (grouped_rows ids ms vs) of
                            Inl e \<Rightarrow> (Inl e, st)
                          | Inr means \<Rightarrow>
                              (Inr (Some (unstack means)),
                               st\<lparr>logged := logged st @
                                  [Log INFO ''Mean values calculated.'']\<rparr>))))))"

subsection \<open>The values extracted for a station and a kind\<close>

text \<open>
  For the statement about \<open>calculate_means\<close>: the numbers that \<open>extract_measurement\<close>
  gives with kind \<open>k\<close> for the messages of station \<open>s\<close>, in the order of the rows.
\<close>

definition extracted_values ::
  "(string \<Rightarrow> error + real) \<Rightarrow> (string \<times> pattern) list \<Rightarrow> cell list \<Rightarrow> cell list \<Rightarrow>
   cell \<Rightarrow> string \<Rightarrow> real list" where
  "extracted_values float rules ids messages s k =
     concat (map (\<lambda>(s', m). case fst (extract_measurement float rules m) of
                               Inr (Some k', Some v) \<Rightarrow> if s' = s \<and> k' = k then [v] else []
                             | _ \<Rightarrow> [])
                 (zip ids messages))"

section \<open>Example data\<close>

text \<open>A field table that already has two columns named with the temporary marker, and
  the directive that exchanges \<open>Annual_yield\<close> and \<open>Crop_type\<close>.\<close>

definition swap_example :: field_state where
  "swap_example =
     \<lparr>logged = [],
      columns_to_rename = [(''Annual_yield'', ''Crop_type'')],
      values_to_rename = Map.empty,
      df = Some [(''__temp_name_for_swap__'', [Num 1]),
                 (''Annual_yield'', [Str ''tea'']),
                 (''__temp_name_for_swap___'', [Num 2]),
                 (''Crop_type'', [Num 0.5])]\<rparr>"

text \<open>A field table without the column \<open>Crop_type\<close> that the same directive names.\<close>

definition missing_column_example :: field_state where
  "missing_column_example =
     \<lparr>logged = [],
      columns_to_rename = [(''Annual_yield'', ''Crop_type'')],
      values_to_rename = Map.empty,
      df = Some [(''Annual_yield'', [Str ''tea'']), (''Elevation'', [Num 3])]\<rparr>"

text \<open>A field table with a negative, a zero and a positive elevation, misspelt crop
  names, and a rainfall column with a negative value.\<close>

definition corrections_example :: field_state where
  "corrections_example =
     \<lparr>logged = [],
      columns_to_rename = [(''Annual_yield'', ''Crop_type'')],
      values_to_rename = [Str ''cassaval'' \<mapsto> Str ''cassava'', Str ''wheatn'' \<mapsto> Str ''wheat''],
      df = Some [(''Field_ID'', [Num 1, Num 2, Num 3]),
                 (''Elevation'', [Num (- 5), Num 0, Num 7]),
                 (''Crop_type'', [Str ''cassaval'', Str ''tea'', Str ''wheatn'']),
                 (''Rainfall'', [Num (- 1), Num 2, Num 3])]\<rparr>"

text \<open>A field table whose int64 elevation column holds the least int64, and a field
  table whose elevation column holds no value at all (an object column of None).\<close>

definition int64_minimum_example :: field_state where
  "int64_minimum_example =
     \<lparr>logged = [],
      columns_to_rename = [(''Annual_yield'', ''Crop_type'')],
      values_to_rename = Map.empty,
      df = Some [(''Elevation'', [Num (- (2 ^ 63))]), (''Crop_type'', [Str ''tea''])]\<rparr>"

definition no_elevation_example :: field_state where
  "no_elevation_example =
     \<lparr>logged = [],
      columns_to_rename = [(''Annual_yield'', ''Crop_type'')],
      values_to_rename = Map.empty,
      df = Some [(''Elevation'', [NA]), (''Crop_type'', [Str ''tea''])]\<rparr>"

text \<open>Two query results: one column and no row, and one column with one row.\<close>

definition no_rows_example :: frame where
  "no_rows_example = [(''Field_ID'', [])]"

definition one_row_example :: frame where
  "one_row_example = [(''Field_ID'', [Num 1])]"

text \<open>
  \<open>prefix_rest p\<close> is what \<^verbatim>\<open>re.search\<close> computes for the regular expression
  \<^verbatim>\<open>(?s)\A\<close> followed by the escaped text \<open>p\<close> and \<^verbatim>\<open>(.*)\<close>: a message matches
  when it starts with \<open>p\<close>, and the one group is the rest of the message.
  \<open>float_on_examples\<close> is \<^verbatim>\<open>float\<close> on the texts the examples convert; the text
  \<open>hot\<close>, like every other text that is no number, is a ValueError.
\<close>

definition prefix_rest :: "string \<Rightarrow> pattern" where
  "prefix_rest p m =
     (if take (length p) m = p then Some [Some (drop (length p) m)] else None)"

definition float_on_examples :: "string \<Rightarrow> error + real" where
  "float_on_examples s =
     (if s = ''10'' then Inr 10 else if s = ''20'' then Inr 20 else if s = ''30'' then Inr 30
      else if s = ''60'' then Inr 60 else if s = ''22.5'' then Inr 22.5
      else Inl ValueError)"

definition example_patterns :: "(string \<times> pattern) list" where
  "example_patterns =
     [(''temp'', prefix_rest ''temp: ''), (''humidity'', prefix_rest ''humidity: '')]"

text \<open>A weather processor before its table is loaded, the table of messages of two
  stations, and the processor after loading that table.\<close>

definition unloaded_example :: weather_state where
  "unloaded_example = \<lparr>logged = [], patterns = example_patterns, weather_df = None\<rparr>"

definition messages_example :: frame where
  "messages_example =
     [(''Weather_station_ID'', [Num 1, Num 1, Num 1, Num 2, Num 2]),
      (''Message'', [Str ''temp: 10'', Str ''temp: 20'', Str ''temp: 30'',
                     Str ''humidity: 60'', Str ''no reading''])]"

definition loaded_example :: weather_state where
  "loaded_example = snd (weather_station_mapping_load (Inr messages_example) unloaded_example)"

text \<open>A field table of three fields with metadata for the first and the third; and a
  field table of one field with metadata that names this field twice.\<close>

definition three_fields_example :: field_state where
  "three_fields_example =
     \<lparr>logged = [],
      columns_to_rename = [(''Annual_yield'', ''Crop_type'')],
      values_to_rename = Map.empty,
      df = Some [(''Field_ID'', [Num 1, Num 2, Num 3]),
                 (''Elevation'', [Num 5, Num 0, Num 7])]\<rparr>"

definition metadata_example :: frame where
  "metadata_example =
     [(''Unnamed: 0'', [Num 0, Num 1]),
      (''Field_ID'', [Num 1, Num 3]),
      (''Weather_station'', [Num 4, Num 0])]"

definition one_field_example :: field_state where
  "one_field_example =
     \<lparr>logged = [],
      columns_to_rename = [(''Annual_yield'', ''Crop_type'')],
      values_to_rename = Map.empty,
      df = Some [(''Field_ID'', [Num 1]), (''Elevation'', [Num 5])]\<rparr>"

definition duplicate_metadata_example :: frame where
  "duplicate_metadata_example =
     [(''Unnamed: 0'', [Num 0, Num 1]),
      (''Field_ID'', [Num 1, Num 1]),
      (''Weather_station'', [Num 4, Num 0])]"

section \<open>Lemmas on tables\<close>

declare fresh_temp_name.simps [simp del]

lemma fresh_temp_name_fresh: "fresh_temp_name cols t \<notin> set cols"
proof (induction cols t rule: fresh_temp_name.induct)
  case (1 cols temp_name)
  then show ?case
    by (cases "temp_name \<in> set cols") (simp_all add: fresh_temp_name.simps [of cols temp_name])
qed

lemma rename_twice:
  assumes "t \<notin> set (labels d)" and "t \<noteq> A"
  shows "rename (rename d [A \<mapsto> t, B \<mapsto> A]) [t \<mapsto> B]
         = map (\<lambda>(n, c). (if n = A then B else if n = B then A else n, c)) d"
proof -
  have "\<And>n c. (n, c) \<in> set d \<Longrightarrow> n \<noteq> t"
    using assms(1) by (force simp: labels_def)
  then show ?thesis
    using assms(2) by (auto simp: rename_def)
qed

lemma map_of_relabel:
  assumes "\<And>n. f (f n) = n"
  shows "map_of (map (\<lambda>(n, c). (f n, c)) d) (f k) = map_of d k"
proof (induction d)
  case Nil
  then show ?case by simp
next
  case (Cons p d)
  obtain n c where p: "p = (n, c)" by (cases p)
  have "f n = f k \<longleftrightarrow> n = k" using assms by metis
  with Cons p show ?case by auto
qed

lemma get_col_set_col:
  "get_col (set_col d n vs) k = (if k = n then Some vs else get_col d k)"
  by (induction d) (auto simp: get_col_def)



lemma series_abs_cases:
  "series_abs dt cs =
     (if \<forall>c \<in> set cs. (\<exists>x. c = Num x) \<or> (dt = Float64 \<and> c = NA)
      then Inr (map (\<lambda>c. case c of
                       Num x \<Rightarrow> Num (if dt = Int64 \<and> x = - (2 ^ 63) then x else \<bar>x\<bar>)
                     | _ \<Rightarrow> c) cs)
      else Inl TypeError)"
proof (induction cs)
  case Nil
  then show ?case by simp
next
  case (Cons c cs)
  show ?case
  proof (cases "cell_abs dt c")
    case (Inl e)
    then have "e = TypeError" and "\<not> ((\<exists>x. c = Num x) \<or> (dt = Float64 \<and> c = NA))"
      by (cases dt; cases c; simp)+
    with Inl show ?thesis by auto
  next
    case (Inr c')
    then have ok: "(\<exists>x. c = Num x) \<or> (dt = Float64 \<and> c = NA)"
      and c': "c' = (case c of
                       Num x \<Rightarrow> Num (if dt = Int64 \<and> x = - (2 ^ 63) then x else \<bar>x\<bar>)
                     | _ \<Rightarrow> c)"
      by (cases dt; cases c; simp)+
    show ?thesis
    proof (cases "\<forall>c \<in> set cs. (\<exists>x. c = Num x) \<or> (dt = Float64 \<and> c = NA)")
      case True
      with Cons Inr ok c' show ?thesis by simp
    next
      case False
      with Cons Inr show ?thesis by simp
    qed
  qed
qed

section \<open>FieldDataProcessor.rename_columns\<close>

text \<open>
  C1. When the table has the two distinct columns \<open>A\<close> and \<open>B\<close> of the directive,
  \<open>rename_columns\<close> returns normally; afterwards the column read under \<open>A\<close> is the
  one that was read under \<open>B\<close> and the other way round, every other label reads the
  column it read before, the labels are the old ones with \<open>A\<close> and \<open>B\<close> exchanged in
  place, and no column's cells changed. Nothing is assumed about the other labels: they
  may start with the temporary marker.
\<close>

theorem rename_columns_swaps:
  assumes "df st = Some d"
    and "columns_to_rename st = (A, B) # others"
    and "A \<in> set (labels d)" and "B \<in> set (labels d)" and "A \<noteq> B"
  shows "fst (rename_columns st) = Inr () \<and>
         (\<exists>d'. df (snd (rename_columns st)) = Some d' \<and>
            get_col d' A = get_col d B \<and> get_col d' B = get_col d A \<and>
            (\<forall>n. n \<noteq> A \<and> n \<noteq> B \<longrightarrow> get_col d' n = get_col d n) \<and>
            labels d' = map (\<lambda>n. if n = A then B else if n = B then A else n) (labels d) \<and>
            map snd d' = map snd d)"
proof -
  define t where "t = fresh_temp_name (labels d) ''__temp_name_for_swap__''"
  define f where "f = (\<lambda>n. if n = A then B else if n = B then A else n)"
  define d' where "d' = map (\<lambda>(n, c). (f n, c)) d"
  have fresh: "t \<notin> set (labels d)"
    unfolding t_def by (rule fresh_temp_name_fresh)
  with assms(3) have "t \<noteq> A" by auto
  with fresh have "rename (rename d [A \<mapsto> t, B \<mapsto> A]) [t \<mapsto> B] = d'"
    unfolding d'_def f_def by (rule rename_twice)
  then have run: "rename_columns st =
      (Inr (), st\<lparr>df := Some d',
         logged := logged st @ [Log INFO (''Swapped columns: '' @ A @ '' with '' @ B)]\<rparr>)"
    using assms(1,2) by (simp add: rename_columns_def t_def Let_def)
  have invol: "\<And>n. f (f n) = n" by (simp add: f_def)
  have look: "\<And>k. get_col d' (f k) = get_col d k"
    unfolding get_col_def d'_def using invol by (rule map_of_relabel)
  have "get_col d' A = get_col d B"
    using look [of B] assms(5) by (auto simp: f_def)
  moreover have "get_col d' B = get_col d A" using look [of A] by (simp add: f_def)
  moreover have "\<forall>n. n \<noteq> A \<and> n \<noteq> B \<longrightarrow> get_col d' n = get_col d n"
  proof (intro allI impI)
    fix n assume "n \<noteq> A \<and> n \<noteq> B"
    then have "f n = n" by (simp add: f_def)
    with look [of n] show "get_col d' n = get_col d n" by simp
  qed
  moreover have "labels d' = map f (labels d)"
    by (simp add: labels_def d'_def case_prod_unfold comp_def)
  moreover have "map snd d' = map snd d"
    by (simp add: d'_def case_prod_unfold comp_def)
  ultimately show ?thesis
    using run by (simp add: f_def)
qed

theorem rename_columns_swaps_witness:
  "df swap_example =
     Some [(''__temp_name_for_swap__'', [Num 1]), (''Annual_yield'', [Str ''tea'']),
           (''__temp_name_for_swap___'', [Num 2]), (''Crop_type'', [Num 0.5])] \<and>
   fst (rename_columns swap_example) = Inr () \<and>
   (\<exists>d'. df (snd (rename_columns swap_example)) = Some d' \<and>
      get_col d' ''Annual_yield'' = Some [Num 0.5] \<and>
      get_col d' ''Crop_type'' = Some [Str ''tea''] \<and>
      get_col d' ''__temp_name_for_swap__'' = Some [Num 1] \<and>
      get_col d' ''__temp_name_for_swap___'' = Some [Num 2] \<and>
      labels d' = [''__temp_name_for_swap__'', ''Crop_type'',
                   ''__temp_name_for_swap___'', ''Annual_yield''])"
proof -
  let ?d = "[(''__temp_name_for_swap__'', [Num 1]), (''Annual_yield'', [Str ''tea'']),
           (''__temp_name_for_swap___'', [Num 2]), (''Crop_type'', [Num 0.5])]"
  have h1: "df swap_example = Some ?d" by (simp add: swap_example_def)
  have h2: "columns_to_rename swap_example = (''Annual_yield'', ''Crop_type'') # []"
    by (simp add: swap_example_def)
  have h3: "''Annual_yield'' \<in> set (labels ?d)" by (simp add: labels_def)
  have h4: "''Crop_type'' \<in> set (labels ?d)" by (simp add: labels_def)
  have h5: "''Annual_yield'' \<noteq> ''Crop_type''" by simp
  from rename_columns_swaps [OF h1 h2 h3 h4 h5] obtain d' where
    ok: "fst (rename_columns swap_example) = Inr ()"
    and d': "df (snd (rename_columns swap_example)) = Some d'"
    and a: "get_col d' ''Annual_yield'' = get_col ?d ''Crop_type''"
    and b: "get_col d' ''Crop_type'' = get_col ?d ''Annual_yield''"
    and o: "\<forall>n. n \<noteq> ''Annual_yield'' \<and> n \<noteq> ''Crop_type'' \<longrightarrow> get_col d' n = get_col ?d n"
    and l: "labels d' = map (\<lambda>n. if n = ''Annual_yield'' then ''Crop_type''
               else if n = ''Crop_type'' then ''Annual_yield'' else n) (labels ?d)"
    by blast
  have "get_col d' ''__temp_name_for_swap__'' = get_col ?d ''__temp_name_for_swap__''"
    using o by simp
  moreover have "get_col d' ''__temp_name_for_swap___'' = get_col ?d ''__temp_name_for_swap___''"
    using o by simp
  ultimately show ?thesis
    using h1 ok d' a b l by (simp add: get_col_def labels_def)
qed

text \<open>
  C6. The claim is that \<open>rename_columns\<close> fails when a name of the directive is no
  column of the table, as the method's docstring says (it raises ValueError). The code
  makes no such check: \<^verbatim>\<open>DataFrame.rename\<close> ignores a key that is no label. On the
  table below, which has no column \<open>Crop_type\<close>, the method returns normally and the
  column \<open>Annual_yield\<close> is now named \<open>Crop_type\<close>.
\<close>

theorem rename_columns_missing_column_completes:
  "fst (rename_columns missing_column_example) = Inr () \<and>
   df (snd (rename_columns missing_column_example)) =
     Some [(''Crop_type'', [Str ''tea'']), (''Elevation'', [Num 3])]"
  by (simp add: rename_columns_def missing_column_example_def labels_def rename_def
      fresh_temp_name.simps)

section \<open>FieldDataProcessor.apply_corrections\<close>

text \<open>What the method does on a table that has both columns, whatever the two
  arguments are: it returns normally when every elevation cell is a number or, in a
  float64 column, missing; otherwise it raises TypeError and changes nothing.\<close>

lemma apply_corrections_run:
  assumes "df st = Some d"
    and "get_col d ''Elevation'' = Some elevation"
    and "get_col d ''Crop_type'' = Some crops"
  shows "apply_corrections dt cn ac st =
     (if \<forall>c \<in> set elevation. (\<exists>x. c = Num x) \<or> (dt = Float64 \<and> c = NA)
      then (Inr (), st\<lparr>df := Some (set_col (set_col d ''Elevation''
             (map (\<lambda>c. case c of
                      Num x \<Rightarrow> Num (if dt = Int64 \<and> x = - (2 ^ 63) then x else \<bar>x\<bar>)
                    | _ \<Rightarrow> c) elevation)) ''Crop_type''
             (map (\<lambda>c. case values_to_rename st c of None \<Rightarrow> c | Some v \<Rightarrow> v) crops))\<rparr>)
      else (Inl TypeError, st))"
  using assms
  by (simp add: apply_corrections_def get_col_set_col series_abs_cases [of dt elevation])

text \<open>
  C5, as the code has it. Let the table have the columns \<open>Elevation\<close> and
  \<open>Crop_type\<close>. When every elevation cell is a number or, in a float64 column,
  missing, \<open>apply_corrections\<close> returns normally; afterwards every elevation cell is
  the absolute value of the cell it was, but for the least int64 in an int64 column,
  which stays as it was, and for a missing cell, which stays missing; every crop cell
  that is a key of \<open>values_to_rename\<close> is the value mapped to it, every other crop cell
  is unchanged; a second call returns normally too and leaves the elevation column as
  the first call made it. On every other elevation column (a missing value or a string
  in an object column) the call raises TypeError and leaves the object as it was.
\<close>

theorem apply_corrections_values:
  assumes "df st = Some d"
    and "get_col d ''Elevation'' = Some elevation"
    and "get_col d ''Crop_type'' = Some crops"
  shows "((\<forall>c \<in> set elevation. (\<exists>x. c = Num x) \<or> (dt = Float64 \<and> c = NA)) \<longrightarrow>
          fst (apply_corrections dt cn ac st) = Inr () \<and>
          fst (apply_corrections dt cn ac (snd (apply_corrections dt cn ac st))) = Inr () \<and>
          (\<exists>d1 d2. df (snd (apply_corrections dt cn ac st)) = Some d1 \<and>
             df (snd (apply_corrections dt cn ac (snd (apply_corrections dt cn ac st)))) = Some d2 \<and>
             get_col d1 ''Elevation'' =
               Some (map (\<lambda>c. case c of
                        Num x \<Rightarrow> Num (if dt = Int64 \<and> x = - (2 ^ 63) then x else \<bar>x\<bar>)
                      | _ \<Rightarrow> c) elevation) \<and>
             get_col d1 ''Crop_type'' =
               Some (map (\<lambda>c. case values_to_rename st c of None \<Rightarrow> c | Some v \<Rightarrow> v) crops) \<and>
             get_col d2 ''Elevation'' = get_col d1 ''Elevation'')) \<and>
         (\<not> (\<forall>c \<in> set elevation. (\<exists>x. c = Num x) \<or> (dt = Float64 \<and> c = NA)) \<longrightarrow>
          apply_corrections dt cn ac st = (Inl TypeError, st))"
proof (rule conjI; rule impI)
  assume "\<not> (\<forall>c \<in> set elevation. (\<exists>x. c = Num x) \<or> (dt = Float64 \<and> c = NA))"
  then show "apply_corrections dt cn ac st = (Inl TypeError, st)"
    using apply_corrections_run [OF assms, of dt cn ac] by simp
next
  assume ok: "\<forall>c \<in> set elevation. (\<exists>x. c = Num x) \<or> (dt = Float64 \<and> c = NA)"
  let ?abs = "\<lambda>c. case c of
                 Num x \<Rightarrow> Num (if dt = Int64 \<and> x = - (2 ^ 63) then x else \<bar>x\<bar>) | _ \<Rightarrow> c"
  let ?ren = "\<lambda>m c. case m c of None \<Rightarrow> c | Some v \<Rightarrow> v"
  define e1 where "e1 = map ?abs elevation"
  define c1 where "c1 = map (?ren (values_to_rename st)) crops"
  define d1 where "d1 = set_col (set_col d ''Elevation'' e1) ''Crop_type'' c1"
  define st1 where "st1 = st\<lparr>df := Some d1\<rparr>"
  have run1: "apply_corrections dt cn ac st = (Inr (), st1)"
    using apply_corrections_run [OF assms, of dt cn ac] ok
    by (simp add: st1_def d1_def e1_def c1_def)
  have g1: "get_col d1 ''Elevation'' = Some e1" and g2: "get_col d1 ''Crop_type'' = Some c1"
    by (simp_all add: d1_def get_col_set_col)
  have ok1: "\<forall>c \<in> set e1. (\<exists>x. c = Num x) \<or> (dt = Float64 \<and> c = NA)"
    using ok by (auto simp: e1_def split: cell.splits)
  have idem: "map ?abs e1 = e1"
    by (simp add: e1_def comp_def split: cell.splits)
  define d2 where "d2 = set_col (set_col d1 ''Elevation'' (map ?abs e1)) ''Crop_type''
      (map (?ren (values_to_rename st1)) c1)"
  have "df st1 = Some d1" by (simp add: st1_def)
  from apply_corrections_run [OF this g1 g2, of dt cn ac] ok1
  have run2: "apply_corrections dt cn ac st1 = (Inr (), st1\<lparr>df := Some d2\<rparr>)"
    by (simp add: d2_def)
  have "get_col d2 ''Elevation'' = Some e1"
    by (simp add: d2_def get_col_set_col idem)
  then show "fst (apply_corrections dt cn ac st) = Inr () \<and>
          fst (apply_corrections dt cn ac (snd (apply_corrections dt cn ac st))) = Inr () \<and>
          (\<exists>d1 d2. df (snd (apply_corrections dt cn ac st)) = Some d1 \<and>
             df (snd (apply_corrections dt cn ac (snd (apply_corrections dt cn ac st)))) = Some d2 \<and>
             get_col d1 ''Elevation'' = Some (map ?abs elevation) \<and>
             get_col d1 ''Crop_type'' =
               Some (map (\<lambda>c. case values_to_rename st c of None \<Rightarrow> c | Some v \<Rightarrow> v) crops) \<and>
             get_col d2 ''Elevation'' = get_col d1 ''Elevation'')"
    using run1 run2 g1 g2 by (simp add: st1_def e1_def c1_def)
qed

theorem apply_corrections_values_witness:
  "df corrections_example =
     Some [(''Field_ID'', [Num 1, Num 2, Num 3]),
           (''Elevation'', [Num (- 5), Num 0, Num 7]),
           (''Crop_type'', [Str ''cassaval'', Str ''tea'', Str ''wheatn'']),
           (''Rainfall'', [Num (- 1), Num 2, Num 3])] \<and>
   fst (apply_corrections Float64 ''Crop_type'' ''Elevation'' corrections_example) = Inr () \<and>
   (\<exists>d1 d2.
      df (snd (apply_corrections Float64 ''Crop_type'' ''Elevation'' corrections_example)) = Some d1 \<and>
      df (snd (apply_corrections Float64 ''Crop_type'' ''Elevation''
            (snd (apply_corrections Float64 ''Crop_type'' ''Elevation'' corrections_example))))
        = Some d2 \<and>
      get_col d1 ''Elevation'' = Some [Num 5, Num 0, Num 7] \<and>
      get_col d1 ''Crop_type'' = Some [Str ''cassava'', Str ''tea'', Str ''wheat''] \<and>
      get_col d2 ''Elevation'' = Some [Num 5, Num 0, Num 7]) \<and>
   df no_elevation_example = Some [(''Elevation'', [NA]), (''Crop_type'', [Str ''tea''])] \<and>
   apply_corrections Object ''Crop_type'' ''Elevation'' no_elevation_example =
     (Inl TypeError, no_elevation_example)"
proof -
  let ?d = "[(''Field_ID'', [Num 1, Num 2, Num 3]),
           (''Elevation'', [Num (- 5), Num 0, Num 7]),
           (''Crop_type'', [Str ''cassaval'', Str ''tea'', Str ''wheatn'']),
           (''Rainfall'', [Num (- 1), Num 2, Num 3])]"
  have h1: "df corrections_example = Some ?d" by (simp add: corrections_example_def)
  have h2: "get_col ?d ''Elevation'' = Some [Num (- 5), Num 0, Num 7]"
    by (simp add: get_col_def)
  have h3: "get_col ?d ''Crop_type'' = Some [Str ''cassaval'', Str ''tea'', Str ''wheatn'']"
    by (simp add: get_col_def)
  have h4: "\<forall>c \<in> set [Num (- 5), Num 0, Num 7]. (\<exists>x. c = Num x) \<or> (Float64 = Float64 \<and> c = NA)"
    by simp
  have m: "values_to_rename corrections_example =
      [Str ''cassaval'' \<mapsto> Str ''cassava'', Str ''wheatn'' \<mapsto> Str ''wheat'']"
    by (simp add: corrections_example_def)
  let ?r1 = "apply_corrections Float64 ''Crop_type'' ''Elevation'' corrections_example"
  from apply_corrections_values
         [OF h1 h2 h3, of Float64 "''Crop_type''" "''Elevation''", THEN conjunct1, THEN mp, OF h4]
  obtain d1 d2 where ok: "fst ?r1 = Inr ()"
    and d1: "df (snd ?r1) = Some d1"
    and d2: "df (snd (apply_corrections Float64 ''Crop_type'' ''Elevation'' (snd ?r1))) = Some d2"
    and e1: "get_col d1 ''Elevation'' = Some [Num 5, Num 0, Num 7]"
    and c1: "get_col d1 ''Crop_type'' = Some [Str ''cassava'', Str ''tea'', Str ''wheat'']"
    and e2: "get_col d2 ''Elevation'' = get_col d1 ''Elevation''"
    by (auto simp: m)
  let ?n = "[(''Elevation'', [NA]), (''Crop_type'', [Str ''tea''])]"
  have n1: "df no_elevation_example = Some ?n" by (simp add: no_elevation_example_def)
  have n2: "get_col ?n ''Elevation'' = Some [NA]" by (simp add: get_col_def)
  have n3: "get_col ?n ''Crop_type'' = Some [Str ''tea'']" by (simp add: get_col_def)
  have n4: "\<not> (\<forall>c \<in> set [NA]. (\<exists>x. c = Num x) \<or> (Object = Float64 \<and> c = NA))" by simp
  note raised = apply_corrections_values
         [OF n1 n2 n3, of Object "''Crop_type''" "''Elevation''", THEN conjunct2, THEN mp, OF n4]
  from h1 ok d1 d2 e1 c1 e2 n1 raised show ?thesis by simp
qed

text \<open>
  The claim as stated gives every elevation its absolute value on every table that has
  the two columns. In the int64 column below the elevation is the least int64: the call
  returns normally and the elevation is as it was, not its absolute value.
\<close>

theorem apply_corrections_int64_minimum_counterexample:
  "df int64_minimum_example =
     Some [(''Elevation'', [Num (- (2 ^ 63))]), (''Crop_type'', [Str ''tea''])] \<and>
   fst (apply_corrections Int64 ''Crop_type'' ''Elevation'' int64_minimum_example) = Inr () \<and>
   df (snd (apply_corrections Int64 ''Crop_type'' ''Elevation'' int64_minimum_example)) =
     Some [(''Elevation'', [Num (- (2 ^ 63))]), (''Crop_type'', [Str ''tea''])] \<and>
   Num (- (2 ^ 63)) \<noteq> Num \<bar>- (2 ^ 63)\<bar>"
  by (simp add: apply_corrections_def int64_minimum_example_def get_col_def)



section \<open>data_ingestion.query_data on an empty result\<close>

text \<open>
  C9. When the query gives a table without rows, \<open>query_data\<close> raises (ValueError);
  when it gives a table that is not empty, \<open>query_data\<close> returns that table.
\<close>

theorem query_data_empty_result:
  "(nrows d = 0 \<longrightarrow> fst (query_data (Inr d)) = Inl ValueError) \<and>
   (\<not> frame_empty d \<longrightarrow> fst (query_data (Inr d)) = Inr d)"
  by (simp add: query_data_def frame_empty_def)

theorem query_data_empty_result_witness:
  "nrows no_rows_example = 0 \<and> fst (query_data (Inr no_rows_example)) = Inl ValueError \<and>
   \<not> frame_empty one_row_example \<and> fst (query_data (Inr one_row_example)) = Inr one_row_example"
proof -
  have a: "nrows no_rows_example = 0" by (simp add: nrows_def no_rows_example_def)
  have b: "\<not> frame_empty one_row_example"
    by (simp add: frame_empty_def nrows_def one_row_example_def)
  from a b query_data_empty_result [of no_rows_example] query_data_empty_result [of one_row_example]
  show ?thesis by blast
qed

section \<open>WeatherDataProcessor.extract_measurement\<close>

lemma extract_measurement_no_match:
  assumes "\<forall>(k, p) \<in> set rules. p m = None"
  shows "extract_measurement float rules (Str m) =
          (Inr (None, None), [Log DEBUG ''No measurement match found.''])"
  using assms by (induction rules) auto

lemma extract_measurement_skip:
  assumes "\<forall>(k, p) \<in> set before. p m = None"
  shows "extract_measurement float (before @ rest) (Str m) = extract_measurement float rest (Str m)"
  using assms by (induction before) auto

text \<open>
  C2, as the code has it. When no rule's pattern matches the message, the result is
  \<open>(None, None)\<close>. When the rules before \<open>(key, pat)\<close> do not match and \<open>pat\<close>
  matches, that rule decides alone: the result is \<open>key\<close> with the number \<open>float\<close>
  gives for the first group that is not \<open>None\<close>; the call raises what \<open>float\<close>
  raises when it rejects the group's text, and StopIteration when the match has no
  group that is not \<open>None\<close>.
\<close>

theorem extract_measurement_result:
  "((\<forall>(k, p) \<in> set rules. p m = None) \<longrightarrow>
      fst (extract_measurement float rules (Str m)) = Inr (None, None)) \<and>
   ((\<forall>(k, p) \<in> set before. p m = None) \<and> pat m = Some groups \<longrightarrow>
      fst (extract_measurement float (before @ (key, pat) # after) (Str m)) =
        (case first_not_none groups of
           None \<Rightarrow> Inl StopIteration
         | Some x \<Rightarrow> (case float x of Inl e \<Rightarrow> Inl e | Inr v \<Rightarrow> Inr (Some key, Some v))))"
  by (auto simp: extract_measurement_no_match extract_measurement_skip
      split: option.splits sum.splits)

theorem extract_measurement_result_witness:
  "prefix_rest ''temp: '' ''humidity: 60'' = None \<and>
   prefix_rest ''humidity: '' ''humidity: 60'' = Some [Some ''60''] \<and>
   fst (extract_measurement float_on_examples example_patterns (Str ''humidity: 60''))
     = Inr (Some ''humidity'', Some 60) \<and>
   prefix_rest ''temp: '' ''no reading'' = None \<and>
   prefix_rest ''humidity: '' ''no reading'' = None \<and>
   fst (extract_measurement float_on_examples example_patterns (Str ''no reading''))
     = Inr (None, None)"
proof -
  have a: "prefix_rest ''temp: '' ''humidity: 60'' = None"
    and b: "prefix_rest ''humidity: '' ''humidity: 60'' = Some [Some ''60'']"
    and c: "prefix_rest ''temp: '' ''no reading'' = None"
    and d: "prefix_rest ''humidity: '' ''no reading'' = None"
    by (simp_all add: prefix_rest_def)
  have f: "float_on_examples ''60'' = Inr 60" by (simp add: float_on_examples_def)
  have e: "example_patterns =
      [(''temp'', prefix_rest ''temp: '')] @ (''humidity'', prefix_rest ''humidity: '') # []"
    by (simp add: example_patterns_def)
  have "fst (extract_measurement float_on_examples example_patterns (Str ''humidity: 60''))
     = Inr (Some ''humidity'', Some 60)"
    using extract_measurement_result [of "[]" "''humidity: 60''" float_on_examples
        "[(''temp'', prefix_rest ''temp: '')]" "prefix_rest ''humidity: ''" "[Some ''60'']"
        "''humidity''" "[]"] a b f
    unfolding e by simp
  moreover have "fst (extract_measurement float_on_examples example_patterns (Str ''no reading''))
     = Inr (None, None)"
    using extract_measurement_result [of example_patterns "''no reading''" float_on_examples
        "[]" "prefix_rest ''temp: ''" "[]" "''temp''" "[]"] c d
    by (simp add: example_patterns_def)
  ultimately show ?thesis using a b c d by simp
qed

text \<open>
  The claim as stated promises a kind and a number for every message that matches a
  rule. The message below matches the rule \<open>temp\<close>; the group is the text \<open>hot\<close>,
  which \<open>float\<close> rejects, and the call raises ValueError.
\<close>

theorem extract_measurement_raises_counterexample:
  "prefix_rest ''temp: '' ''temp: hot'' = Some [Some ''hot''] \<and>
   fst (extract_measurement float_on_examples example_patterns (Str ''temp: hot''))
     = Inl ValueError"
  by (simp add: example_patterns_def prefix_rest_def float_on_examples_def)

section \<open>The weather processor before and after loading\<close>

text \<open>
  C8. While \<open>weather_df\<close> is \<open>None\<close>, \<open>process_messages\<close> and
  \<open>calculate_means\<close> do not raise: each returns \<open>None\<close>, and the object is as
  before but for one warning more in its logger.
\<close>

theorem uninitialized_soft_failure:
  assumes "weather_df st = None"
  shows "process_messages float st =
           (Inr None, st\<lparr>logged := logged st @
              [Log WARNING ''weather_df is not initialized, skipping message processing.'']\<rparr>) \<and>
         calculate_means st =
           (Inr None, st\<lparr>logged := logged st @
              [Log WARNING ''weather_df is not initialized, cannot calculate means.'']\<rparr>)"
  using assms by (simp add: process_messages_def calculate_means_def)

theorem uninitialized_soft_failure_witness:
  "weather_df unloaded_example = None \<and>
   fst (process_messages float_on_examples unloaded_example) = Inr None \<and>
   weather_df (snd (process_messages float_on_examples unloaded_example)) = None \<and>
   patterns (snd (process_messages float_on_examples unloaded_example)) = patterns unloaded_example \<and>
   logged (snd (process_messages float_on_examples unloaded_example)) =
     [Log WARNING ''weather_df is not initialized, skipping message processing.''] \<and>
   fst (calculate_means unloaded_example) = Inr None \<and>
   weather_df (snd (calculate_means unloaded_example)) = None \<and>
   logged (snd (calculate_means unloaded_example)) =
     [Log WARNING ''weather_df is not initialized, cannot calculate means.'']"
proof -
  have h: "weather_df unloaded_example = None" by (simp add: unloaded_example_def)
  have l: "logged unloaded_example = []" by (simp add: unloaded_example_def)
  from uninitialized_soft_failure [OF h, of float_on_examples] h l show ?thesis by simp
qed

text \<open>
  C10. When the table is loaded and has no column \<open>Measurement\<close> or no column
  \<open>Value\<close>, as before \<open>process_messages\<close> has run, \<open>calculate_means\<close> raises
  KeyError; the object is unchanged, so no warning is logged.
\<close>

theorem calculate_means_unprocessed_raises:
  assumes "weather_df st = Some d"
    and "get_col d ''Measurement'' = None \<or> get_col d ''Value'' = None"
  shows "calculate_means st = (Inl KeyError, st)"
  using assms by (auto simp: calculate_means_def split: option.splits)

theorem calculate_means_unprocessed_raises_witness:
  "weather_df loaded_example = Some messages_example \<and>
   get_col messages_example ''Measurement'' = None \<and>
   calculate_means loaded_example = (Inl KeyError, loaded_example)"
proof -
  have h: "weather_df loaded_example = Some messages_example"
    by (simp add: loaded_example_def weather_station_mapping_load_def read_from_web_CSV_def)
  have m: "get_col messages_example ''Measurement'' = None"
    by (simp add: get_col_def messages_example_def)
  then have "get_col messages_example ''Measurement'' = None \<or>
      get_col messages_example ''Value'' = None" by simp
  from calculate_means_unprocessed_raises [OF h this] h m show ?thesis by simp
qed

section \<open>FieldDataProcessor.weather_station_mapping\<close>

text \<open>The rows of the metadata that match a key, the length of the indexer, and the
  indexer when no key of the field table occurs twice among the metadata's keys.\<close>

lemma matching_rows_count:
  "length (filter (\<lambda>j. xs ! j = k) [0..<length xs]) = count_list xs k"
proof (induction xs rule: rev_induct)
  case Nil
  then show ?case by simp
next
  case (snoc x xs)
  have "filter (\<lambda>j. (xs @ [x]) ! j = k) [0..<length xs] = filter (\<lambda>j. xs ! j = k) [0..<length xs]"
    by (rule filter_cong) (auto simp: nth_append)
  with snoc show ?case by simp
qed

lemma matching_rows_empty:
  "filter (\<lambda>j. xs ! j = k) [0..<length xs] = [] \<longleftrightarrow> k \<notin> set xs"
  using matching_rows_count [of xs k] by (simp add: count_list_0_iff flip: length_0_conv)

lemma left_indexer_length:
  "length (left_indexer lk rk) = sum_list (map (\<lambda>k. max 1 (count_list rk k)) lk)"
proof -
  let ?F = "\<lambda>i. case filter (\<lambda>j. rk ! j = lk ! i) [0..<length rk] of
              [] \<Rightarrow> [(i, None)] | j # js \<Rightarrow> map (\<lambda>j'. (i, Some j')) (j # js)"
  have len: "length (?F i) = max 1 (count_list rk (lk ! i))" for i
    using matching_rows_count [of rk "lk ! i"] by (auto split: list.splits)
  have "length (left_indexer lk rk) = sum_list (map (\<lambda>i. length (?F i)) [0..<length lk])"
    by (simp add: left_indexer_def length_concat comp_def)
  also have "\<dots> = sum_list (map ((\<lambda>k. max 1 (count_list rk k)) \<circ> (\<lambda>i. lk ! i)) [0..<length lk])"
    by (simp add: len comp_def)
  also have "\<dots> = sum_list (map (\<lambda>k. max 1 (count_list rk k)) (map (\<lambda>i. lk ! i) [0..<length lk]))"
    by (simp only: map_map)
  finally show ?thesis by (simp add: map_nth)
qed

lemma left_indexer_unique:
  assumes "\<forall>k \<in> set lk. count_list rk k \<le> 1"
  shows "left_indexer lk rk =
     map (\<lambda>i. (i, case filter (\<lambda>j. rk ! j = lk ! i) [0..<length rk] of
                     [] \<Rightarrow> None | j # js \<Rightarrow> Some j)) [0..<length lk]"
proof -
  have one: "length (filter (\<lambda>j. rk ! j = lk ! i) [0..<length rk]) \<le> 1" if "i < length lk" for i
    using assms that by (simp add: matching_rows_count)
  have eq: "map (\<lambda>i. case filter (\<lambda>j. rk ! j = lk ! i) [0..<length rk] of
              [] \<Rightarrow> [(i, None)] | j # js \<Rightarrow> map (\<lambda>j'. (i, Some j')) (j # js)) [0..<length lk]
      = map (\<lambda>i. [(i, case filter (\<lambda>j. rk ! j = lk ! i) [0..<length rk] of
                     [] \<Rightarrow> None | j # js \<Rightarrow> Some j)]) [0..<length lk]"
  proof (rule map_cong [OF refl])
    fix i assume "i \<in> set [0..<length lk]"
    then have "i < length lk" by simp
    from one [OF this]
    show "(case filter (\<lambda>j. rk ! j = lk ! i) [0..<length rk] of
              [] \<Rightarrow> [(i, None)] | j # js \<Rightarrow> map (\<lambda>j'. (i, Some j')) (j # js))
       = [(i, case filter (\<lambda>j. rk ! j = lk ! i) [0..<length rk] of
                     [] \<Rightarrow> None | j # js \<Rightarrow> Some j)]"
      by (cases "filter (\<lambda>j. rk ! j = lk ! i) [0..<length rk]") auto
  qed
  show ?thesis
    unfolding left_indexer_def eq by simp
qed

lemma nrows_uniform:
  assumes "d \<noteq> []" and "\<forall>(n, c) \<in> set d. length c = m"
  shows "nrows d = m"
  using assms by (cases d) (auto simp: nrows_def)

lemma get_col_member: "get_col d n = Some c \<Longrightarrow> (n, c) \<in> set d"
  unfolding get_col_def by (rule map_of_SomeD)

lemma wf_frame_length:
  assumes "wf_frame d" and "(n, c) \<in> set d"
  shows "length c = nrows d"
  using assms by (auto simp: wf_frame_def list_all_iff)


lemma take_left_identity:
  assumes "length c = n"
  shows "take_left (map (\<lambda>i. (i, g i)) [0..<n]) c = c"
  using assms by (auto simp: take_left_def comp_def map_nth)

lemma take_right_unmatched:
  assumes "i < n" and "g i = None"
  shows "take_right (map (\<lambda>i. (i, g i)) [0..<n]) c ! i = NA"
  using assms by (simp add: take_right_def)

lemmas join_eval = weather_station_mapping_def read_from_web_CSV_def merge_left_def get_col_def
  left_indexer_def take_left_def take_right_def suffixed_def labels_def drop_columns_def

text \<open>
  C4, as the code has it. When \<open>weather_station_mapping\<close> returns a table, that table
  is stored in \<open>df\<close> and has, for every field row, one row for each metadata row with
  the same \<open>Field_ID\<close>, and one row when there is none. So when no \<open>Field_ID\<close> of
  the field table occurs more than once among the metadata's, the joined table has as
  many rows as the field table, every field column is in it with its cells unchanged,
  and every metadata column is in it with the missing value in the rows of the fields
  that have no metadata. (A column is in the result when its label, after the suffix
  rule of the merge, is not the dropped \<open>Unnamed: 0\<close>.)
\<close>

theorem weather_station_mapping_row_count:
  assumes run: "weather_station_mapping (Inr meta) st = (Inr out, st')"
    and d: "df st = Some d" and wf: "wf_frame d"
    and lk: "get_col d ''Field_ID'' = Some lk"
    and rk: "get_col meta ''Field_ID'' = Some rk"
  shows "df st' = Some out \<and>
         nrows out = sum_list (map (\<lambda>k. max 1 (count_list rk k)) lk) \<and>
         ((\<forall>k \<in> set lk. count_list rk k \<le> 1) \<longrightarrow>
            nrows out = nrows d \<and>
            (\<forall>(n, c) \<in> set d. suffixed d meta ''Field_ID'' ''_x'' n \<noteq> ''Unnamed: 0'' \<longrightarrow>
               (suffixed d meta ''Field_ID'' ''_x'' n, c) \<in> set out) \<and>
            (\<forall>(n, c) \<in> set meta.
               n \<noteq> ''Field_ID'' \<and> suffixed d meta ''Field_ID'' ''_y'' n \<noteq> ''Unnamed: 0'' \<longrightarrow>
               (\<exists>c'. (suffixed d meta ''Field_ID'' ''_y'' n, c') \<in> set out \<and>
                     (\<forall>i < length lk. lk ! i \<notin> set rk \<longrightarrow> c' ! i = NA))))"
proof -
  define ix where "ix = left_indexer lk rk"
  define lcols where "lcols = map (\<lambda>(n, c). (suffixed d meta ''Field_ID'' ''_x'' n, take_left ix c)) d"
  define rcols where "rcols = map (\<lambda>(n, c). (suffixed d meta ''Field_ID'' ''_y'' n, take_right ix c))
                        (filter (\<lambda>(n, c). n \<noteq> ''Field_ID'') meta)"
  have merged: "merge_left d meta ''Field_ID'' = Inr (lcols @ rcols)"
    using lk rk by (simp add: merge_left_def ix_def lcols_def rcols_def Let_def)
  from run d merged have dropped: "drop_columns (lcols @ rcols) ''Unnamed: 0'' = Inr out"
    and st': "st' = st\<lparr>df := Some out\<rparr>"
    by (auto simp: weather_station_mapping_def read_from_web_CSV_def split: sum.splits)
  from dropped have out: "out = filter (\<lambda>(n, c). n \<noteq> ''Unnamed: 0'') (lcols @ rcols)"
    by (auto simp: drop_columns_def split: if_splits)
  have key: "(''Field_ID'', lk) \<in> set d" using lk by (rule get_col_member)
  then have "(''Field_ID'', take_left ix lk) \<in> set lcols"
    by (force simp: lcols_def suffixed_def)
  then have "(''Field_ID'', take_left ix lk) \<in> set out"
    by (simp add: out)
  then have nonempty: "out \<noteq> []"
    by auto
  have "\<forall>(n, c) \<in> set out. length c = length ix"
    by (auto simp: out lcols_def rcols_def take_left_def take_right_def)
  with nonempty have rows: "nrows out = length ix" by (rule nrows_uniform)
  have count: "nrows out = sum_list (map (\<lambda>k. max 1 (count_list rk k)) lk)"
    unfolding rows ix_def by (rule left_indexer_length)
  have unique: "nrows out = nrows d \<and>
            (\<forall>(n, c) \<in> set d. suffixed d meta ''Field_ID'' ''_x'' n \<noteq> ''Unnamed: 0'' \<longrightarrow>
               (suffixed d meta ''Field_ID'' ''_x'' n, c) \<in> set out) \<and>
            (\<forall>(n, c) \<in> set meta.
               n \<noteq> ''Field_ID'' \<and> suffixed d meta ''Field_ID'' ''_y'' n \<noteq> ''Unnamed: 0'' \<longrightarrow>
               (\<exists>c'. (suffixed d meta ''Field_ID'' ''_y'' n, c') \<in> set out \<and>
                     (\<forall>i < length lk. lk ! i \<notin> set rk \<longrightarrow> c' ! i = NA)))"
    if u: "\<forall>k \<in> set lk. count_list rk k \<le> 1"
  proof -
    define g where "g = (\<lambda>i. case filter (\<lambda>j. rk ! j = lk ! i) [0..<length rk] of
                     [] \<Rightarrow> None | j # js \<Rightarrow> Some j)"
    have ix': "ix = map (\<lambda>i. (i, g i)) [0..<length lk]"
      unfolding ix_def g_def using u by (rule left_indexer_unique)
    have len: "length lk = nrows d" using wf key by (rule wf_frame_length)
    have a: "nrows out = nrows d" by (simp add: rows ix' len)
    have b: "\<forall>(n, c) \<in> set d. suffixed d meta ''Field_ID'' ''_x'' n \<noteq> ''Unnamed: 0'' \<longrightarrow>
               (suffixed d meta ''Field_ID'' ''_x'' n, c) \<in> set out"
    proof (intro ballI, clarify)
      fix n c assume m: "(n, c) \<in> set d"
        and s: "suffixed d meta ''Field_ID'' ''_x'' n \<noteq> ''Unnamed: 0''"
      from wf m have "length c = length lk" by (simp add: wf_frame_length len)
      then have "take_left ix c = c" unfolding ix' by (rule take_left_identity)
      with m have "(suffixed d meta ''Field_ID'' ''_x'' n, c) \<in> set lcols"
        by (force simp: lcols_def)
      with s show "(suffixed d meta ''Field_ID'' ''_x'' n, c) \<in> set out"
        by (simp add: out)
    qed
    have c: "\<forall>(n, c) \<in> set meta.
               n \<noteq> ''Field_ID'' \<and> suffixed d meta ''Field_ID'' ''_y'' n \<noteq> ''Unnamed: 0'' \<longrightarrow>
               (\<exists>c'. (suffixed d meta ''Field_ID'' ''_y'' n, c') \<in> set out \<and>
                     (\<forall>i < length lk. lk ! i \<notin> set rk \<longrightarrow> c' ! i = NA))"
    proof (intro ballI, clarify)
      fix n c assume m: "(n, c) \<in> set meta" and k: "n \<noteq> ''Field_ID''"
        and s: "suffixed d meta ''Field_ID'' ''_y'' n \<noteq> ''Unnamed: 0''"
      from m k have "(suffixed d meta ''Field_ID'' ''_y'' n, take_right ix c) \<in> set rcols"
        by (force simp: rcols_def)
      with s have mem: "(suffixed d meta ''Field_ID'' ''_y'' n, take_right ix c) \<in> set out"
        by (simp add: out)
      have "take_right ix c ! i = NA" if "i < length lk" and "lk ! i \<notin> set rk" for i
      proof -
        from that(2) have "g i = None"
          by (simp add: g_def matching_rows_empty [THEN iffD2])
        with that(1) show ?thesis unfolding ix' by (rule take_right_unmatched)
      qed
      with mem show "\<exists>c'. (suffixed d meta ''Field_ID'' ''_y'' n, c') \<in> set out \<and>
                     (\<forall>i < length lk. lk ! i \<notin> set rk \<longrightarrow> c' ! i = NA)"
        by blast
    qed
    from a b c show ?thesis by blast
  qed
  from st' count unique show ?thesis by simp
qed

theorem weather_station_mapping_row_count_witness:
  "df three_fields_example =
     Some [(''Field_ID'', [Num 1, Num 2, Num 3]), (''Elevation'', [Num 5, Num 0, Num 7])] \<and>
   fst (weather_station_mapping (Inr metadata_example) three_fields_example) =
     Inr [(''Field_ID'', [Num 1, Num 2, Num 3]), (''Elevation'', [Num 5, Num 0, Num 7]),
          (''Weather_station'', [Num 4, NA, Num 0])] \<and>
   nrows [(''Field_ID'', [Num 1, Num 2, Num 3]), (''Elevation'', [Num 5, Num 0, Num 7]),
          (''Weather_station'', [Num 4, NA, Num 0])] =
     nrows [(''Field_ID'', [Num 1, Num 2, Num 3]), (''Elevation'', [Num 5, Num 0, Num 7])]"
proof -
  let ?d = "[(''Field_ID'', [Num 1, Num 2, Num 3]), (''Elevation'', [Num 5, Num 0, Num 7])]"
  let ?out = "[(''Field_ID'', [Num 1, Num 2, Num 3]), (''Elevation'', [Num 5, Num 0, Num 7]),
          (''Weather_station'', [Num 4, NA, Num 0])]"
  let ?r = "weather_station_mapping (Inr metadata_example) three_fields_example"
  have d: "df three_fields_example = Some ?d" by (simp add: three_fields_example_def)
  have res: "fst ?r = Inr ?out"
    by (simp add: join_eval three_fields_example_def metadata_example_def)
  then have run: "?r = (Inr ?out, snd ?r)" by (metis prod.collapse)
  have wf: "wf_frame ?d" by (simp add: wf_frame_def nrows_def)
  have lk: "get_col ?d ''Field_ID'' = Some [Num 1, Num 2, Num 3]" by (simp add: get_col_def)
  have rk: "get_col metadata_example ''Field_ID'' = Some [Num 1, Num 3]"
    by (simp add: get_col_def metadata_example_def)
  have u: "\<forall>k \<in> set [Num 1, Num 2, Num 3]. count_list [Num 1, Num 3] k \<le> 1" by simp
  from weather_station_mapping_row_count [OF run d wf lk rk] u
  have "nrows ?out = nrows ?d" by blast
  with d res show ?thesis by simp
qed

text \<open>
  The claim as stated gives the joined table the row count of the field table however
  many metadata rows match. Here the one field has two metadata rows, and the joined
  table has two rows.
\<close>

theorem weather_station_mapping_duplicates_counterexample:
  "df one_field_example = Some [(''Field_ID'', [Num 1]), (''Elevation'', [Num 5])] \<and>
   nrows [(''Field_ID'', [Num 1]), (''Elevation'', [Num 5])] = 1 \<and>
   fst (weather_station_mapping (Inr duplicate_metadata_example) one_field_example) =
     Inr [(''Field_ID'', [Num 1, Num 1]), (''Elevation'', [Num 5, Num 5]),
          (''Weather_station'', [Num 4, Num 0])] \<and>
   nrows [(''Field_ID'', [Num 1, Num 1]), (''Elevation'', [Num 5, Num 5]),
          (''Weather_station'', [Num 4, Num 0])] = 2"
  by (simp add: join_eval one_field_example_def duplicate_metadata_example_def nrows_def)

section \<open>WeatherDataProcessor.calculate_means\<close>

text \<open>The results of the extraction, row by row, and the rows, keys and values of the
  groups built from them.\<close>

lemma extract_measurement_shape:
  "fst (extract_measurement float ps m) = Inr (a, b) \<Longrightarrow> (a = None \<longleftrightarrow> b = None)"
  by (induction ps) (auto split: cell.splits option.splits sum.splits)

lemma apply_extract_results:
  "fst (apply_extract float ps ms) = Inr res \<Longrightarrow>
   map (\<lambda>m. fst (extract_measurement float ps m)) ms = map Inr res"
proof (induction ms arbitrary: res)
  case Nil
  then show ?case by simp
next
  case (Cons m ms)
  then show ?case
    by (auto split: prod.splits sum.splits)
qed

lemma zip_results:
  "zip ids (zip (map f res) (map g res)) = map (\<lambda>(s, r). (s, f r, g r)) (zip ids res)"
  by (induction ids res rule: list_induct2') auto

lemma group_values_results:
  assumes "\<forall>(s', a, b) \<in> set zs. (a = None \<longleftrightarrow> b = None)"
  shows "group_values
           (filter (\<lambda>(s, k, v). s \<noteq> NA \<and> k \<noteq> NA)
              (map (\<lambda>(s, r). (s, kind_cell (fst r), value_cell (snd r))) zs)) s (Str k)
         = (if s = NA then []
            else concat (map (\<lambda>(s', r). case r of
                                (Some k', Some v) \<Rightarrow> if s' = s \<and> k' = k then [v] else []
                              | _ \<Rightarrow> []) zs))"
  using assms
  by (induction zs) (auto simp: group_values_def kind_cell_def value_cell_def split: option.splits)


lemma extracted_nonempty:
  "concat (map (\<lambda>(s', r). case r of
                   (Some k', Some v) \<Rightarrow> if s' = s \<and> k' = k then [v] else []
                 | _ \<Rightarrow> []) zs) \<noteq> []
   \<longleftrightarrow> (\<exists>v. (s, Some k, Some v) \<in> set zs)"
  by (induction zs) (auto split: option.splits if_splits)

lemma group_keys_results:
  assumes "\<forall>(s', a, b) \<in> set zs. (a = None \<longleftrightarrow> b = None)"
  shows "(s, c) \<in> set (map (\<lambda>(s, k, v). (s, k))
            (filter (\<lambda>(s, k, v). s \<noteq> NA \<and> k \<noteq> NA)
              (map (\<lambda>(s, r). (s, kind_cell (fst r), value_cell (snd r))) zs)))
         \<longleftrightarrow> s \<noteq> NA \<and> (\<exists>k. c = Str k \<and>
               concat (map (\<lambda>(s', r). case r of
                                (Some k', Some v) \<Rightarrow> if s' = s \<and> k' = k then [v] else []
                              | _ \<Rightarrow> []) zs) \<noteq> [])"
proof -
  have "(s, c) \<in> set (map (\<lambda>(s, k, v). (s, k))
            (filter (\<lambda>(s, k, v). s \<noteq> NA \<and> k \<noteq> NA)
              (map (\<lambda>(s, r). (s, kind_cell (fst r), value_cell (snd r))) zs)))
        \<longleftrightarrow> s \<noteq> NA \<and> c \<noteq> NA \<and> (\<exists>a b. (s, a, b) \<in> set zs \<and> c = kind_cell a)"
    by (auto simp: image_iff) force+
  also have "\<dots> \<longleftrightarrow> s \<noteq> NA \<and> (\<exists>k b. c = Str k \<and> (s, Some k, b) \<in> set zs)"
    by (auto simp: kind_cell_def split: option.splits)
  also have "\<dots> \<longleftrightarrow> s \<noteq> NA \<and> (\<exists>k v. c = Str k \<and> (s, Some k, Some v) \<in> set zs)"
    using assms by (metis (mono_tags, lifting) case_prodD option.distinct(1) option.exhaust)
  finally show ?thesis
    unfolding extracted_nonempty by blast
qed

lemma no_string_values:
  "\<not> list_ex (\<lambda>(s, k, v). case v of Str x \<Rightarrow> True | _ \<Rightarrow> False)
      (filter P (map (\<lambda>(s, r). (s, kind_cell (fst r), value_cell (snd r))) zs))"
  by (auto simp: list_ex_iff value_cell_def split: option.splits)

lemma extracted_values_results:
  assumes "map (\<lambda>m. fst (extract_measurement float ps m)) messages = map Inr res"
  shows "extracted_values float ps ids messages s k =
         concat (map (\<lambda>(s', r). case r of
                                (Some k', Some v) \<Rightarrow> if s' = s \<and> k' = k then [v] else []
                              | _ \<Rightarrow> []) (zip ids res))"
  using assms unfolding extracted_values_def
proof (induction ids arbitrary: messages res)
  case Nil
  then show ?case by simp
next
  case (Cons i ids)
  show ?case
  proof (cases messages)
    case Nil
    with Cons.prems show ?thesis by simp
  next
    case m: (Cons m ms)
    with Cons.prems obtain r rs where r: "res = r # rs"
      and hd: "fst (extract_measurement float ps m) = Inr r"
      and tl: "map (\<lambda>m. fst (extract_measurement float ps m)) ms = map Inr rs"
      by (cases res) auto
    from Cons.IH [OF tl] m r hd show ?thesis
      by (cases r) simp
  qed
qed

lemma results_shape:
  assumes "map (\<lambda>m. fst (extract_measurement float ps m)) messages = map Inr res"
  shows "\<forall>(s', a, b) \<in> set (zip ids res). (a = None \<longleftrightarrow> b = None)"
proof -
  have "a = None \<longleftrightarrow> b = None" if "(a, b) \<in> set res" for a b
  proof -
    from that have "Inr (a, b) \<in> set (map (\<lambda>m. fst (extract_measurement float ps m)) messages)"
      unfolding assms by simp
    then obtain m where "fst (extract_measurement float ps m) = Inr (a, b)" by auto
    then show ?thesis by (rule extract_measurement_shape)
  qed
  then show ?thesis by (auto dest: set_zip_rightD)
qed

lemmas weather_eval = loaded_example_def unloaded_example_def messages_example_def
  weather_station_mapping_load_def read_from_web_CSV_def example_patterns_def
  prefix_rest_def float_on_examples_def

text \<open>
  C3. Let the table be loaded, with its station and message columns, and let
  \<open>process_messages\<close> have returned normally. Then \<open>calculate_means\<close> returns a
  table. For a station \<open>s\<close> and a kind \<open>k\<close>, its cell is the sum of the values
  extracted with kind \<open>k\<close> from the messages of \<open>s\<close>, divided by their number; it
  is missing when there is no such value. Its rows are the stations, and its columns
  the kinds, for which at least one value was extracted.
\<close>

theorem calculate_means_of_processed:
  assumes loaded: "weather_df st = Some d"
    and ids: "get_col d ''Weather_station_ID'' = Some ids"
    and msgs: "get_col d ''Message'' = Some messages"
    and run: "process_messages float st = (Inr (Some d'), st')"
  shows "\<exists>tbl. fst (calculate_means st') = Inr (Some tbl) \<and>
     (\<forall>s k. s \<noteq> NA \<longrightarrow>
        mean_at tbl s (Str k) =
          (let vs = extracted_values float (patterns st) ids messages s k
           in if vs = [] then None else Some (sum_list vs / real (length vs)))) \<and>
     (\<forall>s. s \<in> stations tbl \<longleftrightarrow>
        s \<noteq> NA \<and> (\<exists>k. extracted_values float (patterns st) ids messages s k \<noteq> [])) \<and>
     (\<forall>c. c \<in> kinds tbl \<longleftrightarrow>
        (\<exists>s k. c = Str k \<and> s \<noteq> NA \<and>
           extracted_values float (patterns st) ids messages s k \<noteq> []))"
proof -
  from run loaded msgs obtain res l where
    ap: "apply_extract float (patterns st) messages = (Inr res, l)"
    and d': "d' = set_col (set_col d ''Measurement'' (map (kind_cell \<circ> fst) res))
                    ''Value'' (map (value_cell \<circ> snd) res)"
    and st': "weather_df st' = Some d'"
    by (auto simp: process_messages_def Let_def split: prod.splits sum.splits if_splits)
  from ap have "fst (apply_extract float (patterns st) messages) = Inr res" by simp
  then have res: "map (\<lambda>m. fst (extract_measurement float (patterns st) m)) messages = map Inr res"
    by (rule apply_extract_results)
  define zs where "zs = zip ids res"
  define rows where "rows = filter (\<lambda>(s, k, v). s \<noteq> NA \<and> k \<noteq> NA)
              (map (\<lambda>(s, r). (s, kind_cell (fst r), value_cell (snd r))) zs)"
  define ev where "ev = (\<lambda>s k. concat (map (\<lambda>(s', r). case r of
                                (Some k', Some v) \<Rightarrow> if s' = s \<and> k' = k then [v] else []
                              | _ \<Rightarrow> ([]::real list)) zs))"
  have shape: "\<forall>(s', a, b) \<in> set zs. (a = None \<longleftrightarrow> b = None)"
    unfolding zs_def using res by (rule results_shape)
  have ev: "extracted_values float (patterns st) ids messages s k = ev s k" for s k
    unfolding ev_def zs_def using res by (rule extracted_values_results)
  have cols: "get_col d' ''Weather_station_ID'' = Some ids"
    "get_col d' ''Measurement'' = Some (map (kind_cell \<circ> fst) res)"
    "get_col d' ''Value'' = Some (map (value_cell \<circ> snd) res)"
    using ids by (simp_all add: d' get_col_set_col)
  have grouped: "grouped_rows ids (map (kind_cell \<circ> fst) res) (map (value_cell \<circ> snd) res) = rows"
    by (simp add: grouped_rows_def rows_def zs_def zip_results)
  have nostr: "\<not> list_ex (\<lambda>(s, k, v). case v of Str x \<Rightarrow> True | _ \<Rightarrow> False) rows"
    unfolding rows_def by (rule no_string_values)
  define tbl where "tbl = unstack \<lparr>group_keys = set (map (\<lambda>(s, k, v). (s, k)) rows),
                group_mean = (\<lambda>(s, k). mean (group_values rows s k))\<rparr>"
  have result: "fst (calculate_means st') = Inr (Some tbl)"
    using st' cols grouped nostr by (simp add: calculate_means_def groupby_mean_def tbl_def)
  have keys: "(s, c) \<in> set (map (\<lambda>(s, k, v). (s, k)) rows)
      \<longleftrightarrow> s \<noteq> NA \<and> (\<exists>k. c = Str k \<and> ev s k \<noteq> [])" for s c
    unfolding rows_def ev_def using shape by (rule group_keys_results)
  have vals: "group_values rows s (Str k) = (if s = NA then [] else ev s k)" for s k
    unfolding rows_def ev_def using shape by (rule group_values_results)
  have cellv: "mean_at tbl s (Str k) = mean (ev s k)" if "s \<noteq> NA" for s k
    using that keys [of s "Str k"] vals [of s k]
    by (auto simp: tbl_def unstack_def mean_def)
  have st: "s \<in> stations tbl \<longleftrightarrow> s \<noteq> NA \<and> (\<exists>k. ev s k \<noteq> [])" for s
  proof -
    have "s \<in> stations tbl \<longleftrightarrow> (\<exists>c. (s, c) \<in> set (map (\<lambda>(s, k, v). (s, k)) rows))"
      by (force simp: tbl_def unstack_def)
    then show ?thesis using keys by auto
  qed
  have kd: "c \<in> kinds tbl \<longleftrightarrow> (\<exists>s k. c = Str k \<and> s \<noteq> NA \<and> ev s k \<noteq> [])" for c
  proof -
    have "c \<in> kinds tbl \<longleftrightarrow> (\<exists>s. (s, c) \<in> set (map (\<lambda>(s, k, v). (s, k)) rows))"
      by (force simp: tbl_def unstack_def)
    then show ?thesis using keys by auto
  qed
  from result cellv st kd show ?thesis
    by (auto simp: ev mean_def Let_def)
qed

theorem calculate_means_of_processed_witness:
  "weather_df loaded_example = Some messages_example \<and>
   fst (process_messages float_on_examples loaded_example) =
     Inr (Some [(''Weather_station_ID'', [Num 1, Num 1, Num 1, Num 2, Num 2]),
                (''Message'', [Str ''temp: 10'', Str ''temp: 20'', Str ''temp: 30'',
                               Str ''humidity: 60'', Str ''no reading'']),
                (''Measurement'', [Str ''temp'', Str ''temp'', Str ''temp'',
                                   Str ''humidity'', NA]),
                (''Value'', [Num 10, Num 20, Num 30, Num 60, NA])]) \<and>
   (\<exists>tbl.
      fst (calculate_means (snd (process_messages float_on_examples loaded_example)))
        = Inr (Some tbl) \<and>
      mean_at tbl (Num 1) (Str ''temp'') = Some 20 \<and>
      mean_at tbl (Num 1) (Str ''humidity'') = None \<and>
      mean_at tbl (Num 2) (Str ''humidity'') = Some 60 \<and>
      mean_at tbl (Num 2) (Str ''temp'') = None \<and>
      Num 1 \<in> stations tbl \<and> Str ''temp'' \<in> kinds tbl)"
proof -
  let ?ids = "[Num 1, Num 1, Num 1, Num 2, Num 2]"
  let ?msgs = "[Str ''temp: 10'', Str ''temp: 20'', Str ''temp: 30'',
                Str ''humidity: 60'', Str ''no reading'']"
  let ?r = "process_messages float_on_examples loaded_example"
  let ?ev = "extracted_values float_on_examples (patterns loaded_example) ?ids ?msgs"
  have loaded: "weather_df loaded_example = Some messages_example"
    by (simp add: weather_eval)
  have ids: "get_col messages_example ''Weather_station_ID'' = Some ?ids"
    by (simp add: get_col_def messages_example_def)
  have msgs: "get_col messages_example ''Message'' = Some ?msgs"
    by (simp add: get_col_def messages_example_def)
  let ?d' = "[(''Weather_station_ID'', ?ids), (''Message'', ?msgs),
              (''Measurement'', [Str ''temp'', Str ''temp'', Str ''temp'', Str ''humidity'', NA]),
              (''Value'', [Num 10, Num 20, Num 30, Num 60, NA])]"
  have ok: "fst ?r = Inr (Some ?d')"
    by (simp add: process_messages_def get_col_def weather_eval Let_def
        kind_cell_def value_cell_def)
  have run: "?r = (Inr (Some ?d'), snd ?r)"
    unfolding ok [symmetric] by simp
  have e1: "?ev (Num 1) ''temp'' = [10, 20, 30]"
    and e2: "?ev (Num 1) ''humidity'' = []"
    and e3: "?ev (Num 2) ''humidity'' = [60]"
    and e4: "?ev (Num 2) ''temp'' = []"
    by (simp_all add: extracted_values_def weather_eval)
  have n1: "Num 1 \<noteq> NA" and n2: "Num 2 \<noteq> NA" by simp_all
  have ne: "?ev (Num 1) ''temp'' \<noteq> []" unfolding e1 by simp
  note T = calculate_means_of_processed [OF loaded ids msgs run]
  have "\<exists>tbl. fst (calculate_means (snd ?r)) = Inr (Some tbl) \<and>
      mean_at tbl (Num 1) (Str ''temp'') = Some 20 \<and>
      mean_at tbl (Num 1) (Str ''humidity'') = None \<and>
      mean_at tbl (Num 2) (Str ''humidity'') = Some 60 \<and>
      mean_at tbl (Num 2) (Str ''temp'') = None \<and>
      Num 1 \<in> stations tbl \<and> Str ''temp'' \<in> kinds tbl"
  proof (rule exE [OF T], goal_cases)
    case (1 tbl)
    note t = 1 [THEN conjunct1]
      and m = 1 [THEN conjunct2, THEN conjunct1, rule_format]
      and s = 1 [THEN conjunct2, THEN conjunct2, THEN conjunct1, rule_format]
      and k = 1 [THEN conjunct2, THEN conjunct2, THEN conjunct2, rule_format]
    have c1: "mean_at tbl (Num 1) (Str ''temp'') = Some 20"
      using m [OF n1, of "''temp''"] unfolding e1 by simp
    have c2: "mean_at tbl (Num 1) (Str ''humidity'') = None"
      using m [OF n1, of "''humidity''"] unfolding e2 by simp
    have c3: "mean_at tbl (Num 2) (Str ''humidity'') = Some 60"
      using m [OF n2, of "''humidity''"] unfolding e3 by simp
    have c4: "mean_at tbl (Num 2) (Str ''temp'') = None"
      using m [OF n2, of "''temp''"] unfolding e4 by simp
    have "Num 1 \<noteq> NA \<and> (\<exists>k. ?ev (Num 1) k \<noteq> [])"
      using n1 ne by (intro conjI exI [of _ "''temp''"])
    then have c5: "Num 1 \<in> stations tbl"
      by (rule s [THEN iffD2])
    have "\<exists>s k. Str ''temp'' = Str k \<and> s \<noteq> NA \<and> ?ev s k \<noteq> []"
      using n1 ne by (intro exI [of _ "Num 1"] exI [of _ "''temp''"] conjI refl)
    then have c6: "Str ''temp'' \<in> kinds tbl"
      by (rule k [THEN iffD2])
    from t c1 c2 c3 c4 c5 c6 show ?case
      by (intro exI [of _ tbl] conjI)
  qed
  with loaded ok show ?thesis by (intro conjI)
qed

end
